theory Spec2Isabelle
  imports Main "HOL-Library.Word" "HOL-Library.Code_Target_Nat"
begin

section \<open>The mesh suballocator of RenderEngine\_Allocate.cpp\<close>

text \<open>
  A shallow embedding of \<^verbatim>\<open>src/src/RenderEngine_Allocate.cpp\<close>: the four member
  functions of the vertex/index suballocator and their lambdas, as state-passing functions
  over a record of the members they touch.

  \<^item> \<^verbatim>\<open>uint32_t\<close> is \<open>32 word\<close>: \<open>+\<close> and \<open>-\<close> wrap, \<open>\<le>\<close> is the unsigned
    comparison, and \<^verbatim>\<open>-1\<close> is \<open>0xFFFFFFFF\<close>.
  \<^item> \<^verbatim>\<open>allocation_freelist_t\<close> and \<^verbatim>\<open>allocation_allocatedlist_t\<close> are declared in
    \<^verbatim>\<open>RenderEngine.hpp\<close>, which is not among the sources; the code uses them as
    \<^verbatim>\<open>std::vector<Range>\<close> (\<^verbatim>\<open>size\<close>, \<^verbatim>\<open>operator[]\<close>, \<^verbatim>\<open>at\<close>, \<^verbatim>\<open>erase\<close>,
    \<^verbatim>\<open>push_back\<close>), so they are lists of ranges here. A comparison of a
    \<^verbatim>\<open>uint32_t\<close> index with \<^verbatim>\<open>size()\<close> is a comparison of naturals, since
    \<^verbatim>\<open>size_t\<close> is wider than 32 bits.
  \<^item> What C++ leaves undefined is a value of the model (\<open>UB\<close>), and so is a thrown
    exception (\<open>Thrown\<close>, with the state at the throw); where the standard lets the
    library choose among several results, the model chooses none (\<open>Unspecified\<close>); a
    loop that need not terminate is a \<^theory_text>\<open>partial_function\<close> in the option monad, where
    \<open>None\<close> is "does not return".
  \<^item> \<^verbatim>\<open>std::lock_guard mtx{allocationLock}\<close> serialises the calls; the model is of
    one call at a time and has no lock.
\<close>

subsection \<open>Data\<close>

type_synonym uint32_t = "32 word"
type_synonym byte = "8 word"

record Range =
  start :: uint32_t
  count :: uint32_t

record MeshRange =
  vertRange :: Range
  indexRange :: Range

datatype undefined_behaviour =
    OutOfBoundsRead               \<comment> \<open>\<^verbatim>\<open>vector::operator[]\<close> with an index that is not below \<^verbatim>\<open>size()\<close>\<close>
  | InvalidatedReference          \<comment> \<open>a read through a reference that \<^verbatim>\<open>vector::erase\<close> invalidated\<close>
  | ComparatorNotStrictWeak       \<comment> \<open>\<^verbatim>\<open>std::sort\<close> with a comparator that is no strict weak ordering\<close>

datatype unspecified_behaviour =
    OrderOfEquivalentElements     \<comment> \<open>\<^verbatim>\<open>std::sort\<close> of elements that the comparator holds equivalent\<close>

datatype exception = std_out_of_range

datatype ('a, 's) outcome =
    Returned 'a 's
  | Thrown exception 's
  | UB undefined_behaviour
  | Unspecified unspecified_behaviour

subsection \<open>The device: buffers, command buffer, fence\<close>

text \<open>
  The graphics layer (RGL) is outside the sources. A buffer is the configuration
  \<^verbatim>\<open>CreateBuffer\<close> was given, with the \<^verbatim>\<open>UpdateBufferData\<close> calls it has received;
  the calls on the command buffer and the fence are logged in order.
\<close>

datatype buffer_usage = VertexBuffer | IndexBuffer
datatype buffer_stride = sizeof_VertexNormalUV | sizeof_uint32_t
datatype buffer_access = Private

record buffer =
  nBytes :: uint32_t
  usage :: buffer_usage
  stride :: buffer_stride
  access :: buffer_access
  uploads :: "(byte list \<times> uint32_t) list"

datatype gpu_event =
    CreateCommandBuffer
  | CreateFence
  | CmdBegin
  | CmdCopyBuffer buffer uint32_t buffer uint32_t uint32_t
      \<comment> \<open>source buffer and offset, destination buffer and offset, length\<close>
  | CmdEnd
  | CmdCommit
  | FenceWait

definition CreateBuffer :: "uint32_t \<Rightarrow> buffer_usage \<Rightarrow> buffer_stride \<Rightarrow> buffer_access \<Rightarrow> buffer" where
  "CreateBuffer n u st a = \<lparr>nBytes = n, usage = u, stride = st, access = a, uploads = []\<rparr>"

definition UpdateBufferData :: "byte list \<Rightarrow> uint32_t \<Rightarrow> buffer \<Rightarrow> buffer" where
  "UpdateBufferData bytes offset b = b\<lparr>uploads := uploads b @ [(bytes, offset)]\<rparr>"

subsection \<open>The members of RenderEngine the allocator uses\<close>

record RenderEngine =
  sharedVertexBuffer :: buffer
  sharedIndexBuffer :: buffer
  currentVertexSize :: uint32_t
  currentIndexSize :: uint32_t
  vertexFreeList :: "Range list"
  indexFreeList :: "Range list"
  vertexAllocatedList :: "Range list"
  indexAllocatedList :: "Range list"
  gcBuffers :: "buffer list"
  deviceLog :: "gpu_event list"

subsection \<open>std::vector\<close>

definition subscript :: "'a list \<Rightarrow> nat \<Rightarrow> undefined_behaviour + 'a" where
  \<comment> \<open>\<^verbatim>\<open>v[i]\<close>: no bounds check\<close>
  "subscript v i = (if i < length v then Inr (v ! i) else Inl OutOfBoundsRead)"

definition at :: "'a list \<Rightarrow> nat \<Rightarrow> exception + 'a" where
  \<comment> \<open>\<^verbatim>\<open>v.at(i)\<close>: throws \<^verbatim>\<open>std::out_of_range\<close>\<close>
  "at v i = (if i < length v then Inr (v ! i) else Inl std_out_of_range)"

definition erase :: "'a list \<Rightarrow> nat \<Rightarrow> 'a list" where
  \<comment> \<open>\<^verbatim>\<open>v.erase(v.begin() + i)\<close>, for \<open>i < length v\<close>\<close>
  "erase v i = take i v @ drop (Suc i) v"

subsection \<open>AllocateMesh\<close>

text \<open>
  \<^verbatim>\<open>findPlacement\<close> (lines 20--30). The loop variable \<open>i\<close> and \<open>bestRangeIndex\<close> are
  \<^verbatim>\<open>uint32_t\<close>; \<open>bestRangeIndex\<close> is \<open>-1\<close> until the iteration that breaks. The test of
  line 24 reads \<^verbatim>\<open>freeList[bestRangeIndex]\<close>, not \<^verbatim>\<open>nextRange\<close> (which is bound and
  never read). When the test fails the loop goes on with \<open>i + 1\<close>.
\<close>

partial_function (option) findPlacement_for ::
  "uint32_t \<Rightarrow> Range list \<Rightarrow> uint32_t \<Rightarrow> uint32_t \<Rightarrow> (undefined_behaviour + uint32_t) option" where
  "findPlacement_for requestedSize freeList bestRangeIndex i =
     (if unat i < length freeList then
        (case subscript freeList (unat bestRangeIndex) of
           Inl ub \<Rightarrow> Some (Inl ub)
         | Inr best \<Rightarrow>
             if requestedSize \<le> count best then Some (Inr i)
             else findPlacement_for requestedSize freeList bestRangeIndex (i + 1))
      else Some (Inr bestRangeIndex))"

declare findPlacement_for.simps [code]

definition findPlacement :: "uint32_t \<Rightarrow> Range list \<Rightarrow> (undefined_behaviour + uint32_t) option" where
  "findPlacement requestedSize freeList = findPlacement_for requestedSize freeList (- 1) 0"

text \<open>
  \<^verbatim>\<open>getAllocationLocation\<close> (lines 32--42), a do-while. \<open>currentSize\<close> and \<open>freeList\<close>
  are references to members, read from the current state; \<open>realloc_fn\<close> is the grow
  function of the buffer. The value is the final \<^verbatim>\<open>allocation\<close>.
\<close>

partial_function (option) getAllocationLocation ::
  "uint32_t \<Rightarrow> (RenderEngine \<Rightarrow> uint32_t) \<Rightarrow> (RenderEngine \<Rightarrow> Range list) \<Rightarrow>
   (uint32_t \<Rightarrow> RenderEngine \<Rightarrow> (unit, RenderEngine) outcome) \<Rightarrow>
   RenderEngine \<Rightarrow> (uint32_t, RenderEngine) outcome option" where
  "getAllocationLocation sz currentSize freeList realloc_fn s =
     (case findPlacement sz (freeList s) of
        None \<Rightarrow> None
      | Some (Inl ub) \<Rightarrow> Some (UB ub)
      | Some (Inr allocation) \<Rightarrow>
          (case (if allocation = - 1 then realloc_fn (currentSize s + sz) s else Returned () s) of
             UB ub \<Rightarrow> Some (UB ub)
           | Unspecified us \<Rightarrow> Some (Unspecified us)
           | Thrown e s' \<Rightarrow> Some (Thrown e s')
           | Returned _ s' \<Rightarrow>
               if allocation \<noteq> - 1
               then getAllocationLocation sz currentSize freeList realloc_fn s'
               else Some (Returned allocation s')))"

declare getAllocationLocation.simps [code]

text \<open>
  \<^verbatim>\<open>consumeRange\<close> (lines 53--66). \<open>rangeToUpdate\<close> is a reference to the element
  \<^verbatim>\<open>freeList.at(allocation)\<close>. On an exact fit the element is erased, which invalidates
  the reference, and lines 64 and 65 then read through it. Otherwise line 61 advances
  \<open>start\<close> in place (\<open>count\<close> is not written), and lines 64 and 65 copy the element as
  it is after that update.
\<close>

definition consumeRange ::
  "uint32_t \<Rightarrow> uint32_t \<Rightarrow> Range list \<Rightarrow> Range list \<Rightarrow> (Range, Range list \<times> Range list) outcome" where
  "consumeRange allocation allocatedSize freeList allocatedList =
     (case at freeList (unat allocation) of
        Inl e \<Rightarrow> Thrown e (freeList, allocatedList)
      | Inr rangeToUpdate \<Rightarrow>
          if count rangeToUpdate = allocatedSize then UB InvalidatedReference
          else
            let freeList' = freeList[unat allocation :=
                              rangeToUpdate\<lparr>start := start rangeToUpdate + allocatedSize\<rparr>];
                updated = freeList' ! unat allocation
            in Returned updated (freeList', allocatedList @ [updated]))"

subsection \<open>The grow functions\<close>

text \<open>
  The comparator of line 148 returns \<^verbatim>\<open>b->start - a->start\<close>, a \<^verbatim>\<open>uint32_t\<close> converted
  to \<^verbatim>\<open>bool\<close>: true when the difference is not zero.
\<close>

definition comparator :: "Range \<Rightarrow> Range \<Rightarrow> bool" where
  "comparator a b = (start b - start a \<noteq> 0)"

text \<open>
  \<^verbatim>\<open>std::sort\<close> requires a comparator that is a strict weak ordering of the elements:
  irreflexive, transitive, and with a transitive incomparability. With any other
  comparator the behaviour is undefined. With a conforming one the result is a sorted
  permutation. Where no two different elements are equivalent (of any two, one is
  before the other) there is only one, and insertion computes it. Where two different
  elements are equivalent, \<^verbatim>\<open>std::sort\<close>, which is not stable, may leave them in
  either order: the standard does not say which, and neither does the model. The
  elements sorted here are pointers to the allocated ranges, different for every entry.
\<close>

definition strict_weak_on :: "('a \<Rightarrow> 'a \<Rightarrow> bool) \<Rightarrow> 'a list \<Rightarrow> bool" where
  "strict_weak_on cmp xs =
     (list_all (\<lambda>a. \<not> cmp a a) xs \<and>
      list_all (\<lambda>a. list_all (\<lambda>b. list_all (\<lambda>c.
        (if cmp a b \<and> cmp b c then cmp a c else True) \<and>
        (if \<not> cmp a b \<and> \<not> cmp b a \<and> \<not> cmp b c \<and> \<not> cmp c b
         then \<not> cmp a c \<and> \<not> cmp c a else True)) xs) xs) xs)"

fun insert_by :: "('a \<Rightarrow> 'a \<Rightarrow> bool) \<Rightarrow> 'a \<Rightarrow> 'a list \<Rightarrow> 'a list" where
  "insert_by cmp x [] = [x]"
| "insert_by cmp x (y # ys) = (if cmp y x then y # insert_by cmp x ys else x # y # ys)"

fun no_equivalent :: "('a \<Rightarrow> 'a \<Rightarrow> bool) \<Rightarrow> 'a list \<Rightarrow> bool" where
  "no_equivalent cmp [] = True"
| "no_equivalent cmp (x # xs) =
     (list_all (\<lambda>y. x = y \<or> cmp x y \<or> cmp y x) xs \<and> no_equivalent cmp xs)"

datatype 'a sorted =
    Sorted "'a list"
  | SortUnspecified unspecified_behaviour
  | SortUndefined undefined_behaviour

definition std_sort :: "('a \<Rightarrow> 'a \<Rightarrow> bool) \<Rightarrow> 'a list \<Rightarrow> 'a sorted" where
  "std_sort cmp xs =
     (if \<not> strict_weak_on cmp xs then SortUndefined ComparatorNotStrictWeak
      else if no_equivalent cmp xs then Sorted (foldr (insert_by cmp) xs [])
      else SortUnspecified OrderOfEquivalentElements)"

text \<open>
  The loop of lines 158--165 over \<open>sortList\<close>. A \<^verbatim>\<open>Range*\<close> into
  \<open>vertexAllocatedList\<close> is the index of the element. \<open>oldstart\<close> is read and not used:
  line 161 is a comment, no command is recorded.
\<close>

fun fillHoles :: "nat list \<Rightarrow> uint32_t \<Rightarrow> Range list \<Rightarrow> Range list" where
  "fillHoles [] offset allocatedList = allocatedList"
| "fillHoles (ptr # sortList) offset allocatedList =
     fillHoles sortList (offset + count (allocatedList ! ptr))
       (allocatedList[ptr := (allocatedList ! ptr)\<lparr>start := offset\<rparr>])"

definition ReallocateVertexAllocationToSize ::
  "uint32_t \<Rightarrow> RenderEngine \<Rightarrow> (unit, RenderEngine) outcome" where
  "ReallocateVertexAllocationToSize newSize s =
     (let oldBuffer = sharedVertexBuffer s;
          s1 = s\<lparr>gcBuffers := gcBuffers s @ [oldBuffer],
                 sharedVertexBuffer := CreateBuffer newSize VertexBuffer sizeof_VertexNormalUV Private,
                 currentVertexSize := newSize\<rparr>;
          allocated = vertexAllocatedList s1
      in case std_sort (\<lambda>a b. comparator (allocated ! a) (allocated ! b)) [0..<length allocated] of
           SortUndefined ub \<Rightarrow> UB ub
         | SortUnspecified us \<Rightarrow> Unspecified us
         | Sorted sortList \<Rightarrow>
             Returned ()
               (s1\<lparr>vertexAllocatedList := fillHoles sortList 0 allocated,
                   deviceLog := deviceLog s1 @
                     [CreateCommandBuffer, CreateFence, CmdBegin, CmdEnd, CmdCommit, FenceWait]\<rparr>))"

definition ReallocateIndexAllocationToSize ::
  "uint32_t \<Rightarrow> RenderEngine \<Rightarrow> (unit, RenderEngine) outcome" where
  "ReallocateIndexAllocationToSize newSize s =
     Returned ()
       (s\<lparr>sharedIndexBuffer := CreateBuffer newSize IndexBuffer sizeof_uint32_t Private,
          currentIndexSize := newSize\<rparr>)"

text \<open>
  \<^verbatim>\<open>AllocateMesh\<close> (lines 10--83). \<open>vertexBytes\<close> and \<open>indexBytes\<close> are the byte views
  of the two spans; their \<^verbatim>\<open>size()\<close> is passed to \<^verbatim>\<open>uint32_t\<close> parameters.
\<close>

definition AllocateMesh ::
  "byte list \<Rightarrow> byte list \<Rightarrow> RenderEngine \<Rightarrow> (MeshRange, RenderEngine) outcome option" where
  "AllocateMesh vertexBytes indexBytes s =
     (case getAllocationLocation (of_nat (length vertexBytes)) currentVertexSize vertexFreeList
             ReallocateVertexAllocationToSize s of
        None \<Rightarrow> None
      | Some (UB ub) \<Rightarrow> Some (UB ub)
      | Some (Unspecified us) \<Rightarrow> Some (Unspecified us)
      | Some (Thrown e s1) \<Rightarrow> Some (Thrown e s1)
      | Some (Returned vertexAllocation s1) \<Rightarrow>
     (case getAllocationLocation (of_nat (length indexBytes)) currentIndexSize indexFreeList
             ReallocateIndexAllocationToSize s1 of
        None \<Rightarrow> None
      | Some (UB ub) \<Rightarrow> Some (UB ub)
      | Some (Unspecified us) \<Rightarrow> Some (Unspecified us)
      | Some (Thrown e s2) \<Rightarrow> Some (Thrown e s2)
      | Some (Returned indexAllocation s2) \<Rightarrow>
     (case consumeRange vertexAllocation (of_nat (length vertexBytes))
             (vertexFreeList s2) (vertexAllocatedList s2) of
        UB ub \<Rightarrow> Some (UB ub)
      | Unspecified us \<Rightarrow> Some (Unspecified us)
      | Thrown e (fl, al) \<Rightarrow> Some (Thrown e (s2\<lparr>vertexFreeList := fl, vertexAllocatedList := al\<rparr>))
      | Returned vertexPlacement (fl, al) \<Rightarrow>
     (let s3 = s2\<lparr>vertexFreeList := fl, vertexAllocatedList := al\<rparr> in
      case consumeRange indexAllocation (of_nat (length indexBytes))
             (indexFreeList s3) (indexAllocatedList s3) of
        UB ub \<Rightarrow> Some (UB ub)
      | Unspecified us \<Rightarrow> Some (Unspecified us)
      | Thrown e (fl, al) \<Rightarrow> Some (Thrown e (s3\<lparr>indexFreeList := fl, indexAllocatedList := al\<rparr>))
      | Returned indexPlacement (fl, al) \<Rightarrow>
          Some (Returned \<lparr>vertRange = vertexPlacement, indexRange = indexPlacement\<rparr>
            (s3\<lparr>indexFreeList := fl, indexAllocatedList := al,
                sharedVertexBuffer :=
                  UpdateBufferData vertexBytes (start vertexPlacement) (sharedVertexBuffer s3),
                sharedIndexBuffer :=
                  UpdateBufferData indexBytes (start indexPlacement) (sharedIndexBuffer s3)\<rparr>))))))"

subsection \<open>DeallocateMesh\<close>

text \<open>
  The search of lines 90--99. \<open>foundRangeIndex\<close> starts at \<open>-1\<close> and is compared with
  \<^verbatim>\<open>allocatedList.size()\<close> before the first iteration. \<open>foundRange\<close> is declared
  without an initialiser; what a default-constructed \<open>Range\<close> holds is decided by
  \<^verbatim>\<open>RenderEngine.hpp\<close>, so it is the parameter \<open>foundRange\<close> of the model.
\<close>

partial_function (option) deallocateData_for ::
  "Range \<Rightarrow> Range list \<Rightarrow> Range \<Rightarrow> uint32_t \<Rightarrow> (Range \<times> Range list) option" where
  "deallocateData_for range' allocatedList foundRange foundRangeIndex =
     (if unat foundRangeIndex < length allocatedList then
        (let nextRange = allocatedList ! unat foundRangeIndex in
         if start range' \<le> start nextRange \<and> count range' \<le> count nextRange
         then Some (nextRange, erase allocatedList (unat foundRangeIndex))
         else deallocateData_for range' allocatedList foundRange (foundRangeIndex + 1))
      else Some (foundRange, allocatedList))"

declare deallocateData_for.simps [code]

text \<open>
  The loop of lines 105--116 over the free list, by reference: the second test reads
  the element as the first branch left it. The value is the free list and
  \<open>overlapFound\<close>.
\<close>

fun mergeBordering :: "Range \<Rightarrow> Range list \<Rightarrow> bool \<Rightarrow> Range list \<times> bool" where
  "mergeBordering foundRange [] overlapFound = ([], overlapFound)"
| "mergeBordering foundRange (r # freeList) overlapFound =
     (let hit1 = (start r + count r = start foundRange);
          r1 = (if hit1 then r\<lparr>count := count r + count foundRange\<rparr> else r);
          hit2 = (start foundRange + count foundRange = start r1);
          r2 = (if hit2 then r1\<lparr>start := start r1 - count foundRange\<rparr> else r1);
          (freeList', overlapFound') = mergeBordering foundRange freeList (overlapFound \<or> hit1 \<or> hit2)
      in (r2 # freeList', overlapFound'))"

text \<open>
  \<^verbatim>\<open>deallocateData\<close> (lines 88--121). The range pushed at line 118 is the parameter
  \<open>range\<close>, not \<open>foundRange\<close>. The value is the allocated list and the free list.
\<close>

definition deallocateData ::
  "Range \<Rightarrow> Range \<Rightarrow> Range list \<Rightarrow> Range list \<Rightarrow> (unit, Range list \<times> Range list) outcome option" where
  "deallocateData foundRange0 range' allocatedList freeList =
     (case deallocateData_for range' allocatedList foundRange0 (- 1) of
        None \<Rightarrow> None
      | Some (foundRange, allocatedList') \<Rightarrow>
          (case mergeBordering foundRange freeList False of
             (freeList', overlapFound) \<Rightarrow>
               Some (Returned ()
                 (allocatedList', if \<not> overlapFound then freeList' @ [range'] else freeList'))))"

definition DeallocateMesh ::
  "Range \<Rightarrow> MeshRange \<Rightarrow> RenderEngine \<Rightarrow> (unit, RenderEngine) outcome option" where
  "DeallocateMesh foundRange0 range' s =
     (case deallocateData foundRange0 (vertRange range') (vertexAllocatedList s) (vertexFreeList s) of
        None \<Rightarrow> None
      | Some (UB ub) \<Rightarrow> Some (UB ub)
      | Some (Unspecified us) \<Rightarrow> Some (Unspecified us)
      | Some (Thrown e _) \<Rightarrow> Some (Thrown e s)
      | Some (Returned _ (al, fl)) \<Rightarrow>
     (let s1 = s\<lparr>vertexAllocatedList := al, vertexFreeList := fl\<rparr> in
      case deallocateData foundRange0 (indexRange range') (indexAllocatedList s1) (indexFreeList s1) of
        None \<Rightarrow> None
      | Some (UB ub) \<Rightarrow> Some (UB ub)
      | Some (Unspecified us) \<Rightarrow> Some (Unspecified us)
      | Some (Thrown e _) \<Rightarrow> Some (Thrown e s1)
      | Some (Returned _ (al, fl)) \<Rightarrow>
          Some (Returned () (s1\<lparr>indexAllocatedList := al, indexFreeList := fl\<rparr>))))"

subsection \<open>The state the specification starts from\<close>

text \<open>
  Modelled from the spec: the constructor of RenderEngine is not among the sources.
  "Free/Allocated Lists begin empty with zero-capacity buffers."
\<close>

definition emptyEngine :: RenderEngine where
  "emptyEngine =
     \<lparr>sharedVertexBuffer = CreateBuffer 0 VertexBuffer sizeof_VertexNormalUV Private,
      sharedIndexBuffer = CreateBuffer 0 IndexBuffer sizeof_uint32_t Private,
      currentVertexSize = 0, currentIndexSize = 0,
      vertexFreeList = [], indexFreeList = [],
      vertexAllocatedList = [], indexAllocatedList = [],
      gcBuffers = [], deviceLog = []\<rparr>"

subsection \<open>The invariants the specification states\<close>

text \<open>
  These are the properties of the specification's sections 3 and 8, not code: the bytes a
  range covers, "no two ranges overlap", "the ranges exactly partition
  \<open>[0, capacity)\<close>, each with \<open>count > 0\<close>", and "mutually adjacent".
\<close>

definition covered :: "Range \<Rightarrow> nat set" where
  "covered r = {unat (start r) ..< unat (start r) + unat (count r)}"

fun non_overlapping :: "Range list \<Rightarrow> bool" where
  "non_overlapping [] = True"
| "non_overlapping (r # rs) =
     (list_all (\<lambda>q. covered r \<inter> covered q = {}) rs \<and> non_overlapping rs)"

definition tiles :: "Range list \<Rightarrow> uint32_t \<Rightarrow> bool" where
  "tiles rs capacity =
     (list_all (\<lambda>r. count r \<noteq> 0) rs \<and> non_overlapping rs \<and>
      \<Union> (set (map covered rs)) = {0 ..< unat capacity})"

definition mutually_adjacent :: "Range \<Rightarrow> Range \<Rightarrow> bool" where
  "mutually_adjacent a b = (start a + count a = start b \<or> start b + count b = start a)"

section \<open>What the loops compute\<close>

lemma unat_sentinel: "unat (- 1 :: 32 word) = 4294967295"
  by (simp add: unsigned_minus_1_eq_mask mask_eq_exp_minus_1)

text \<open>On an empty free list the body of the search never runs.\<close>

lemma findPlacement_empty: "findPlacement requestedSize [] = Some (Inr (- 1))"
  by (simp add: findPlacement_def findPlacement_for.simps)

text \<open>
  On a free list with an entry, the first iteration reads the entry at index
  \<open>0xFFFFFFFF\<close>, which a list of fewer than \<open>2^32\<close> entries does not have.
\<close>

lemma findPlacement_nonempty:
  assumes "freeList \<noteq> []" and "length freeList < 2 ^ 32"
  shows "findPlacement requestedSize freeList = Some (Inl OutOfBoundsRead)"
  using assms
  by (simp add: findPlacement_def findPlacement_for.simps subscript_def unat_sentinel)

text \<open>
  The do-while of \<^verbatim>\<open>getAllocationLocation\<close> goes on while \<open>allocation \<noteq> -1\<close>: when
  the search finds nothing, it grows once and leaves the loop with the sentinel.
\<close>

lemma getAllocationLocation_empty:
  assumes "freeList s = []" and "realloc_fn (currentSize s + sz) s = Returned () s'"
  shows "getAllocationLocation sz currentSize freeList realloc_fn s = Some (Returned (- 1) s')"
  using assms
  by (subst getAllocationLocation.simps) (simp add: findPlacement_empty)

lemma getAllocationLocation_nonempty:
  assumes "freeList s \<noteq> []" and "length (freeList s) < 2 ^ 32"
  shows "getAllocationLocation sz currentSize freeList realloc_fn s = Some (UB OutOfBoundsRead)"
  using assms
  by (subst getAllocationLocation.simps) (simp add: findPlacement_nonempty)

lemma std_sort_Nil: "std_sort cmp [] = Sorted []"
  by (simp add: std_sort_def strict_weak_on_def)

lemma ReallocateVertexAllocationToSize_no_allocations:
  assumes "vertexAllocatedList s = []"
  shows "ReallocateVertexAllocationToSize newSize s =
    Returned ()
      (s\<lparr>gcBuffers := gcBuffers s @ [sharedVertexBuffer s],
         sharedVertexBuffer := CreateBuffer newSize VertexBuffer sizeof_VertexNormalUV Private,
         currentVertexSize := newSize,
         vertexAllocatedList := [],
         deviceLog := deviceLog s @
           [CreateCommandBuffer, CreateFence, CmdBegin, CmdEnd, CmdCommit, FenceWait]\<rparr>)"
  using assms by (simp add: ReallocateVertexAllocationToSize_def Let_def std_sort_Nil)

lemma consumeRange_sentinel:
  assumes "length freeList < 2 ^ 32"
  shows "consumeRange (- 1) allocatedSize freeList allocatedList =
           Thrown std_out_of_range (freeList, allocatedList)"
  using assms by (simp add: consumeRange_def at_def unat_sentinel)

text \<open>
  With both free lists empty (and nothing allocated in the vertex buffer, so that the
  sort has nothing to compare), \<^verbatim>\<open>AllocateMesh\<close> grows each buffer by the request and
  then throws from \<^verbatim>\<open>freeList.at(-1)\<close>; the free lists are still empty afterwards.
\<close>

lemma AllocateMesh_empty_free_lists:
  assumes "vertexFreeList s = []" and "indexFreeList s = []" and "vertexAllocatedList s = []"
  shows "\<exists>s'. AllocateMesh vertexBytes indexBytes s = Some (Thrown std_out_of_range s')
     \<and> currentVertexSize s' = currentVertexSize s + of_nat (length vertexBytes)
     \<and> currentIndexSize s' = currentIndexSize s + of_nat (length indexBytes)
     \<and> vertexFreeList s' = [] \<and> indexFreeList s' = []
     \<and> vertexAllocatedList s' = [] \<and> indexAllocatedList s' = indexAllocatedList s"
proof -
  let ?v = "of_nat (length vertexBytes) :: uint32_t"
  let ?i = "of_nat (length indexBytes) :: uint32_t"
  obtain s1 where s1: "ReallocateVertexAllocationToSize (currentVertexSize s + ?v) s = Returned () s1"
    and f1: "vertexFreeList s1 = []" "indexFreeList s1 = []" "vertexAllocatedList s1 = []"
      "indexAllocatedList s1 = indexAllocatedList s"
      "currentVertexSize s1 = currentVertexSize s + ?v" "currentIndexSize s1 = currentIndexSize s"
    using assms by (simp add: ReallocateVertexAllocationToSize_no_allocations)
  have g1: "getAllocationLocation ?v currentVertexSize vertexFreeList
              ReallocateVertexAllocationToSize s = Some (Returned (- 1) s1)"
    using assms(1) s1 by (rule getAllocationLocation_empty)
  define s2 where "s2 = s1\<lparr>sharedIndexBuffer :=
      CreateBuffer (currentIndexSize s1 + ?i) IndexBuffer sizeof_uint32_t Private,
      currentIndexSize := currentIndexSize s1 + ?i\<rparr>"
  have r2: "ReallocateIndexAllocationToSize (currentIndexSize s1 + ?i) s1 = Returned () s2"
    by (simp add: ReallocateIndexAllocationToSize_def s2_def)
  have g2: "getAllocationLocation ?i currentIndexSize indexFreeList
              ReallocateIndexAllocationToSize s1 = Some (Returned (- 1) s2)"
    using f1(2) r2 by (rule getAllocationLocation_empty)
  have f2: "vertexFreeList s2 = []" "vertexAllocatedList s2 = []"
    using f1 by (simp_all add: s2_def)
  have c: "consumeRange (- 1) ?v (vertexFreeList s2) (vertexAllocatedList s2) =
        Thrown std_out_of_range ([], [])"
    by (simp add: f2 consumeRange_sentinel)
  have "AllocateMesh vertexBytes indexBytes s =
      Some (Thrown std_out_of_range (s2\<lparr>vertexFreeList := [], vertexAllocatedList := []\<rparr>))"
    by (simp add: AllocateMesh_def g1 g2 c)
  then show ?thesis
    using f1 by (simp add: s2_def)
qed

text \<open>
  What the vertex grow writes when it returns: the buffer, the capacity, the queue of
  retired buffers, the log, and the \<open>start\<close> of allocated ranges. It never writes a
  free list and never throws.
\<close>

lemma ReallocateVertexAllocationToSize_writes:
  assumes "ReallocateVertexAllocationToSize newSize s = Returned u s'"
  shows "vertexFreeList s' = vertexFreeList s \<and> indexFreeList s' = indexFreeList s \<and>
         currentVertexSize s' = newSize \<and>
         sharedVertexBuffer s' = CreateBuffer newSize VertexBuffer sizeof_VertexNormalUV Private \<and>
         gcBuffers s' = gcBuffers s @ [sharedVertexBuffer s] \<and>
         deviceLog s' = deviceLog s @
           [CreateCommandBuffer, CreateFence, CmdBegin, CmdEnd, CmdCommit, FenceWait]"
  using assms
  by (auto simp add: ReallocateVertexAllocationToSize_def Let_def split: sorted.splits)

lemma ReallocateVertexAllocationToSize_not_Thrown:
  "ReallocateVertexAllocationToSize newSize s \<noteq> Thrown e s'"
  by (simp add: ReallocateVertexAllocationToSize_def Let_def split: sorted.splits)

text \<open>
  From no state whose free lists have fewer than \<open>2^32\<close> entries does \<^verbatim>\<open>AllocateMesh\<close>
  return a \<open>MeshRange\<close>: a non-empty free list is read out of bounds, an empty one
  leads to \<^verbatim>\<open>freeList.at(-1)\<close>.
\<close>

lemma AllocateMesh_never_returns:
  assumes "length (vertexFreeList s) < 2 ^ 32" and "length (indexFreeList s) < 2 ^ 32"
  shows "AllocateMesh vertexBytes indexBytes s \<noteq> Some (Returned placement s')"
proof (cases "vertexFreeList s = []")
  case False
  then have "getAllocationLocation (of_nat (length vertexBytes)) currentVertexSize vertexFreeList
      ReallocateVertexAllocationToSize s = Some (UB OutOfBoundsRead)"
    using assms(1) by (rule getAllocationLocation_nonempty)
  then show ?thesis by (simp add: AllocateMesh_def)
next
  case True
  let ?v = "of_nat (length vertexBytes) :: uint32_t"
  let ?i = "of_nat (length indexBytes) :: uint32_t"
  let ?g = "getAllocationLocation ?v currentVertexSize vertexFreeList
      ReallocateVertexAllocationToSize s"
  show ?thesis
  proof (cases "ReallocateVertexAllocationToSize (currentVertexSize s + ?v) s")
    case (Returned u s1)
    then have g: "?g = Some (Returned (- 1) s1)"
      using True getAllocationLocation_empty [of vertexFreeList s] by simp
    have fl: "vertexFreeList s1 = []" "indexFreeList s1 = indexFreeList s"
      using ReallocateVertexAllocationToSize_writes [OF Returned] True by simp_all
    let ?h = "getAllocationLocation ?i currentIndexSize indexFreeList
             ReallocateIndexAllocationToSize s1"
    show ?thesis
    proof (cases "indexFreeList s1 = []")
      case False
      then have "?h = Some (UB OutOfBoundsRead)"
        using assms(2) fl(2) by (intro getAllocationLocation_nonempty) simp_all
      then show ?thesis by (simp add: AllocateMesh_def g)
    next
      case True
      define s2 where "s2 = s1\<lparr>sharedIndexBuffer :=
          CreateBuffer (currentIndexSize s1 + ?i) IndexBuffer sizeof_uint32_t Private,
          currentIndexSize := currentIndexSize s1 + ?i\<rparr>"
      have "ReallocateIndexAllocationToSize (currentIndexSize s1 + ?i) s1 = Returned () s2"
        by (simp add: ReallocateIndexAllocationToSize_def s2_def)
      with True have h: "?h = Some (Returned (- 1) s2)"
        by (rule getAllocationLocation_empty)
      have "consumeRange (- 1) ?v (vertexFreeList s2) (vertexAllocatedList s2) =
          Thrown std_out_of_range ([], vertexAllocatedList s2)"
        using fl(1) by (simp add: s2_def consumeRange_sentinel)
      then show ?thesis by (simp add: AllocateMesh_def g h)
    qed
  next
    case (Thrown e s1)
    then show ?thesis by (simp add: ReallocateVertexAllocationToSize_not_Thrown)
  next
    case (UB ub)
    have "?g = Some (UB ub)"
      by (subst getAllocationLocation.simps) (simp add: True findPlacement_empty UB)
    then show ?thesis by (simp add: AllocateMesh_def)
  next
    case (Unspecified us)
    have "?g = Some (Unspecified us)"
      by (subst getAllocationLocation.simps) (simp add: True findPlacement_empty Unspecified)
    then show ?thesis by (simp add: AllocateMesh_def)
  qed
qed

text \<open>
  The search of \<^verbatim>\<open>deallocateData\<close> starts at index \<open>0xFFFFFFFF\<close>: on an allocated list
  of fewer than \<open>2^32\<close> entries its body never runs, nothing is erased and \<open>foundRange\<close>
  keeps its initial value.
\<close>

lemma deallocateData_for_sentinel:
  assumes "length allocatedList < 2 ^ 32"
  shows "deallocateData_for range' allocatedList foundRange (- 1) = Some (foundRange, allocatedList)"
  using assms by (subst deallocateData_for.simps) (simp add: unat_sentinel)

lemma mergeBordering_length_eq:
  "mergeBordering foundRange freeList overlapFound = (freeList', overlapFound') \<Longrightarrow>
   length freeList' = length freeList"
proof (induction freeList arbitrary: overlapFound freeList' overlapFound')
  case Nil
  then show ?case by simp
next
  case (Cons r freeList)
  then show ?case
    by (auto simp add: Let_def split: prod.splits)
qed

lemma mergeBordering_length:
  "length (fst (mergeBordering foundRange freeList overlapFound)) = length freeList"
  by (cases "mergeBordering foundRange freeList overlapFound")
     (simp add: mergeBordering_length_eq)

lemma deallocateData_short:
  assumes "length allocatedList < 2 ^ 32"
  shows "deallocateData foundRange0 range' allocatedList freeList =
     Some (Returned ()
       (allocatedList,
        if \<not> snd (mergeBordering foundRange0 freeList False)
        then fst (mergeBordering foundRange0 freeList False) @ [range']
        else fst (mergeBordering foundRange0 freeList False)))"
  using assms
  by (simp add: deallocateData_def deallocateData_for_sentinel split: prod.split)

section \<open>The claims\<close>

text \<open>
  C1. The specification's concrete scenario: from empty lists and zero-capacity buffers,
  \<open>Allocate(64, 24)\<close> is to return \<open>{{0,64},{0,24}}\<close> and a following
  \<open>Allocate(32, 12)\<close> is to return \<open>{{64,32},{24,12}}\<close>, each call growing each buffer
  once, by the request. Run on the code, each call does grow each buffer once by exactly
  the request (to 64 and 24, then to 96 and 36), but neither returns a \<open>MeshRange\<close>: the
  grow functions add nothing to the free lists, the placement loop leaves with the
  sentinel, and \<^verbatim>\<open>freeList.at(-1)\<close> in \<^verbatim>\<open>consumeRange\<close> throws
  \<^verbatim>\<open>std::out_of_range\<close>. Nothing is recorded as allocated.
\<close>

theorem AllocateMesh_concrete_scenario:
  "\<exists>s1 s2.
     AllocateMesh (replicate 64 0) (replicate 24 0) emptyEngine = Some (Thrown std_out_of_range s1) \<and>
     currentVertexSize s1 = 64 \<and> currentIndexSize s1 = 24 \<and>
     vertexFreeList s1 = [] \<and> indexFreeList s1 = [] \<and>
     vertexAllocatedList s1 = [] \<and> indexAllocatedList s1 = [] \<and>
     AllocateMesh (replicate 32 0) (replicate 12 0) s1 = Some (Thrown std_out_of_range s2) \<and>
     currentVertexSize s2 = 96 \<and> currentIndexSize s2 = 36 \<and>
     vertexFreeList s2 = [] \<and> indexFreeList s2 = [] \<and>
     vertexAllocatedList s2 = [] \<and> indexAllocatedList s2 = []"
proof -
  obtain s1 where 1: "AllocateMesh (replicate 64 0) (replicate 24 0) emptyEngine =
        Some (Thrown std_out_of_range s1)"
      "currentVertexSize s1 = 64" "currentIndexSize s1 = 24"
      "vertexFreeList s1 = []" "indexFreeList s1 = []"
      "vertexAllocatedList s1 = []" "indexAllocatedList s1 = []"
    using AllocateMesh_empty_free_lists [of emptyEngine "replicate 64 0" "replicate 24 0"]
    by (auto simp add: emptyEngine_def)
  obtain s2 where 2: "AllocateMesh (replicate 32 0) (replicate 12 0) s1 =
        Some (Thrown std_out_of_range s2)"
      "currentVertexSize s2 = 96" "currentIndexSize s2 = 36"
      "vertexFreeList s2 = []" "indexFreeList s2 = []"
      "vertexAllocatedList s2 = []" "indexAllocatedList s2 = []"
    using AllocateMesh_empty_free_lists [of s1 "replicate 32 0" "replicate 12 0"] 1
    by auto
  from 1 2 show ?thesis by blast
qed

text \<open>
  C2. The placement loop is to terminate holding the index of a free range with
  \<open>count \<ge> requestedSize\<close>, growing to \<open>currentCapacity + requestedSize\<close> and
  retrying when nothing fits. Run on the code with an empty free list and capacity 0, a
  request of 64 grows the buffer to exactly \<open>0 + 64\<close>, but the loop then ends without a
  retry, holding the sentinel \<open>0xFFFFFFFF\<close>, and the free list is still empty. With a
  free list that does hold a fitting range (\<open>{0,64}\<close> for a request of 4) the search reads
  \<^verbatim>\<open>freeList[0xFFFFFFFF]\<close>, out of bounds, before it looks at any entry.
\<close>

theorem getAllocationLocation_exits_on_sentinel:
  "(\<exists>s'. getAllocationLocation 64 currentVertexSize vertexFreeList
            ReallocateVertexAllocationToSize emptyEngine = Some (Returned (- 1) s') \<and>
         currentVertexSize s' = 0 + 64 \<and> vertexFreeList s' = []) \<and>
   getAllocationLocation 4 currentVertexSize vertexFreeList ReallocateVertexAllocationToSize
     (emptyEngine\<lparr>currentVertexSize := 64, vertexFreeList := [\<lparr>start = 0, count = 64\<rparr>]\<rparr>) =
     Some (UB OutOfBoundsRead)"
proof -
  have "getAllocationLocation 64 currentVertexSize vertexFreeList
            ReallocateVertexAllocationToSize emptyEngine =
        Some (Returned (- 1)
          (emptyEngine\<lparr>gcBuffers := gcBuffers emptyEngine @ [sharedVertexBuffer emptyEngine],
             sharedVertexBuffer :=
               CreateBuffer (currentVertexSize emptyEngine + 64) VertexBuffer
                 sizeof_VertexNormalUV Private,
             currentVertexSize := currentVertexSize emptyEngine + 64,
             vertexAllocatedList := [],
             deviceLog := deviceLog emptyEngine @
               [CreateCommandBuffer, CreateFence, CmdBegin, CmdEnd, CmdCommit, FenceWait]\<rparr>))"
    by (rule getAllocationLocation_empty)
       (simp_all add: emptyEngine_def ReallocateVertexAllocationToSize_no_allocations)
  moreover have "getAllocationLocation 4 currentVertexSize vertexFreeList
       ReallocateVertexAllocationToSize
       (emptyEngine\<lparr>currentVertexSize := 64, vertexFreeList := [\<lparr>start = 0, count = 64\<rparr>]\<rparr>) =
     Some (UB OutOfBoundsRead)"
    by (rule getAllocationLocation_nonempty) simp_all
  ultimately show ?thesis by (simp add: emptyEngine_def)
qed

text \<open>
  C3. On a fit that is not exact, \<^verbatim>\<open>consumeRange\<close> is to shrink the free range
  (advance \<open>start\<close> and reduce \<open>count\<close> by the request) and to record and return the
  consumed sub-range: the original \<open>start\<close>, \<open>count\<close> equal to the request. The code
  advances \<open>start\<close> and leaves \<open>count\<close> as it was, and what it records and returns is a
  copy of the free range after that update: the advanced \<open>start\<close> and the old
  \<open>count\<close>. For a request of 4 from the free range \<open>{0,10}\<close> the free list becomes
  \<open>[{4,10}]\<close> (not \<open>[{4,6}]\<close>) and the recorded range is \<open>{4,10}\<close> (not \<open>{0,4}\<close>).
\<close>

theorem consumeRange_inexact_fit:
  assumes "unat allocation < length freeList"
    and "count (freeList ! unat allocation) \<noteq> allocatedSize"
  shows "consumeRange allocation allocatedSize freeList allocatedList =
     Returned
       \<lparr>start = start (freeList ! unat allocation) + allocatedSize,
        count = count (freeList ! unat allocation)\<rparr>
       (freeList[unat allocation :=
          \<lparr>start = start (freeList ! unat allocation) + allocatedSize,
           count = count (freeList ! unat allocation)\<rparr>],
        allocatedList @
          [\<lparr>start = start (freeList ! unat allocation) + allocatedSize,
            count = count (freeList ! unat allocation)\<rparr>])"
proof -
  have upd: "r\<lparr>start := x\<rparr> = \<lparr>start = x, count = count r\<rparr>" for r :: Range and x
    by (cases r) simp
  from assms show ?thesis
    by (simp add: consumeRange_def at_def Let_def upd)
qed

theorem consumeRange_inexact_fit_witness:
  "unat (0 :: uint32_t) < length [\<lparr>start = 0, count = 10\<rparr>] \<and>
   count ([\<lparr>start = 0, count = 10\<rparr>] ! unat (0 :: uint32_t)) \<noteq> 4 \<and>
   consumeRange 0 4 [\<lparr>start = 0, count = 10\<rparr>] [] =
     Returned \<lparr>start = 4, count = 10\<rparr>
       ([\<lparr>start = 4, count = 10\<rparr>], [\<lparr>start = 4, count = 10\<rparr>])"
  using consumeRange_inexact_fit [of 0 "[\<lparr>start = 0, count = 10\<rparr>]" 4 "[]"]
  by simp

text \<open>
  C4. For each half of a \<open>MeshRange\<close> passed to Deallocate, an entry of the allocated
  list identical to the range is to be removed and its range returned to the free list,
  and a range with no matching entry is to make Deallocate fail loudly. Run on the code,
  freeing \<open>{0,4}\<close> when the allocated list is \<open>[{0,4}]\<close> and the free list is empty
  returns with \<open>{0,4}\<close> still in the allocated list, and in the free list as well: the
  search of lines 90--99 starts at index \<open>0xFFFFFFFF\<close>, so its body never runs and
  nothing is erased. Freeing \<open>{0,4}\<close> when nothing at all is allocated returns normally
  too, with \<open>{0,4}\<close> put on the free list. Both hold whatever a default-constructed
  \<open>Range\<close> holds.
\<close>

theorem deallocateData_keeps_matching_entry:
  "deallocateData foundRange0 \<lparr>start = 0, count = 4\<rparr> [\<lparr>start = 0, count = 4\<rparr>] [] =
     Some (Returned () ([\<lparr>start = 0, count = 4\<rparr>], [\<lparr>start = 0, count = 4\<rparr>])) \<and>
   deallocateData foundRange0 \<lparr>start = 0, count = 4\<rparr> [] [] =
     Some (Returned () ([], [\<lparr>start = 0, count = 4\<rparr>]))"
  by (simp add: deallocateData_short)

text \<open>
  C5. After a Deallocate no two free ranges are to be mutually adjacent, and a freed
  range with a free neighbour on each side is to be merged with both into one entry.
  Run on the code, freeing the allocated \<open>{4,4}\<close> between the free \<open>{0,4}\<close> and
  \<open>{8,4}\<close> leaves \<open>{4,4}\<close> allocated and a free list of at least two entries, never the
  single \<open>{0,12}\<close>, whatever a default-constructed \<open>Range\<close> holds. The merging loop
  itself, given the freed range, turns the two neighbours into \<open>{0,8}\<close> and \<open>{4,4}\<close>:
  the right neighbour's \<open>start\<close> is moved down and its \<open>count\<close> is not increased, and
  no entry is removed. And with a zero default \<open>Range\<close>, freeing \<open>{4,4}\<close> beside the
  free \<open>{8,4}\<close> appends it: the free list then holds two mutually adjacent ranges.
\<close>

theorem deallocateData_between_two_free_ranges:
  "(\<exists>freeList'.
      deallocateData foundRange0 \<lparr>start = 4, count = 4\<rparr> [\<lparr>start = 4, count = 4\<rparr>]
        [\<lparr>start = 0, count = 4\<rparr>, \<lparr>start = 8, count = 4\<rparr>] =
        Some (Returned () ([\<lparr>start = 4, count = 4\<rparr>], freeList')) \<and>
      2 \<le> length freeList' \<and> freeList' \<noteq> [\<lparr>start = 0, count = 12\<rparr>]) \<and>
   mergeBordering \<lparr>start = 4, count = 4\<rparr> [\<lparr>start = 0, count = 4\<rparr>, \<lparr>start = 8, count = 4\<rparr>] False =
     ([\<lparr>start = 0, count = 8\<rparr>, \<lparr>start = 4, count = 4\<rparr>], True) \<and>
   deallocateData \<lparr>start = 0, count = 0\<rparr> \<lparr>start = 4, count = 4\<rparr> [\<lparr>start = 4, count = 4\<rparr>]
        [\<lparr>start = 8, count = 4\<rparr>] =
     Some (Returned ()
       ([\<lparr>start = 4, count = 4\<rparr>], [\<lparr>start = 8, count = 4\<rparr>, \<lparr>start = 4, count = 4\<rparr>])) \<and>
   mutually_adjacent \<lparr>start = 8, count = 4\<rparr> \<lparr>start = 4, count = 4\<rparr>"
proof -
  let ?fl = "[\<lparr>start = 0, count = 4\<rparr>, \<lparr>start = 8, count = 4\<rparr>] :: Range list"
  let ?m = "mergeBordering foundRange0 ?fl False"
  have len: "length (fst ?m) = 2"
    by (simp only: mergeBordering_length) simp
  define freeList' where
    "freeList' = (if \<not> snd ?m then fst ?m @ [\<lparr>start = 4, count = 4\<rparr>] else fst ?m)"
  have 1: "deallocateData foundRange0 \<lparr>start = 4, count = 4\<rparr> [\<lparr>start = 4, count = 4\<rparr>] ?fl =
        Some (Returned () ([\<lparr>start = 4, count = 4\<rparr>], freeList'))"
    unfolding freeList'_def by (subst deallocateData_short) simp_all
  have 2: "2 \<le> length freeList'"
    using len by (simp add: freeList'_def)
  then have 3: "freeList' \<noteq> [\<lparr>start = 0, count = 12\<rparr>]"
    by auto
  have 4: "mergeBordering \<lparr>start = 4, count = 4\<rparr> ?fl False =
     ([\<lparr>start = 0, count = 8\<rparr>, \<lparr>start = 4, count = 4\<rparr>], True)"
    by simp
  have 5: "deallocateData \<lparr>start = 0, count = 0\<rparr> \<lparr>start = 4, count = 4\<rparr>
        [\<lparr>start = 4, count = 4\<rparr>] [\<lparr>start = 8, count = 4\<rparr>] =
     Some (Returned ()
       ([\<lparr>start = 4, count = 4\<rparr>], [\<lparr>start = 8, count = 4\<rparr>, \<lparr>start = 4, count = 4\<rparr>]))"
    by (subst deallocateData_short) simp_all
  have 6: "mutually_adjacent \<lparr>start = 8, count = 4\<rparr> \<lparr>start = 4, count = 4\<rparr>"
    by (simp add: mutually_adjacent_def)
  from 1 2 3 4 5 6 show ?thesis by blast
qed

text \<open>
  C6. After every completed Allocate, Deallocate or grow, the free and allocated ranges
  of a buffer are to partition \<open>[0, currentCapacity)\<close>. Run on the code, the empty state
  satisfies this for both buffers (nothing covers nothing), and a grow breaks it: after
  \<open>ReallocateVertexAllocationToSize(64)\<close> the capacity is 64 and both vertex lists are
  still empty, so no range covers any of the 64 bytes; likewise for the index buffer
  after \<open>ReallocateIndexAllocationToSize(24)\<close>.
\<close>

theorem grow_breaks_tiling:
  "tiles (vertexFreeList emptyEngine @ vertexAllocatedList emptyEngine)
     (currentVertexSize emptyEngine) \<and>
   (\<exists>s'. ReallocateVertexAllocationToSize 64 emptyEngine = Returned () s' \<and>
      vertexFreeList s' = [] \<and> vertexAllocatedList s' = [] \<and> currentVertexSize s' = 64 \<and>
      \<not> tiles (vertexFreeList s' @ vertexAllocatedList s') (currentVertexSize s')) \<and>
   tiles (indexFreeList emptyEngine @ indexAllocatedList emptyEngine)
     (currentIndexSize emptyEngine) \<and>
   (\<exists>s'. ReallocateIndexAllocationToSize 24 emptyEngine = Returned () s' \<and>
      indexFreeList s' = [] \<and> indexAllocatedList s' = [] \<and> currentIndexSize s' = 24 \<and>
      \<not> tiles (indexFreeList s' @ indexAllocatedList s') (currentIndexSize s'))"
proof -
  have no: "\<not> tiles [] 64" "\<not> tiles [] 24" and yes: "tiles [] 0"
    by (simp_all add: tiles_def)
  have v: "vertexAllocatedList emptyEngine = []"
    by (simp add: emptyEngine_def)
  show ?thesis
    by (simp add: ReallocateVertexAllocationToSize_no_allocations [OF v]
        ReallocateIndexAllocationToSize_def no yes)
       (simp add: emptyEngine_def no yes)
qed

text \<open>
  C7. The vertex grow is to visit the allocated ranges in descending order of their old
  \<open>start\<close>, give each the running offset as its new \<open>start\<close>, record for each a copy
  command from the old buffer at the old offset to the new buffer at the new offset, and
  enqueue the old buffer for deferred destruction. Run on the code with the one
  allocated range \<open>{8,4}\<close>: the old buffer is enqueued and the range gets the new
  \<open>start\<close> 0, but the command buffer is begun, ended and committed with no copy command
  in it. With the two allocated ranges \<open>{0,4}\<close> and \<open>{8,4}\<close> the comparator given to
  \<^verbatim>\<open>std::sort\<close> holds in both directions (it tests that the two \<open>start\<close>s differ), so
  it is no ordering and the sort is undefined: no descending order is established.
\<close>

theorem grow_records_no_copy:
  "ReallocateVertexAllocationToSize 16
     (emptyEngine\<lparr>currentVertexSize := 12, vertexAllocatedList := [\<lparr>start = 8, count = 4\<rparr>]\<rparr>) =
     Returned ()
       (emptyEngine
          \<lparr>currentVertexSize := 16,
           vertexAllocatedList := [\<lparr>start = 0, count = 4\<rparr>],
           sharedVertexBuffer := CreateBuffer 16 VertexBuffer sizeof_VertexNormalUV Private,
           gcBuffers := [sharedVertexBuffer emptyEngine],
           deviceLog := [CreateCommandBuffer, CreateFence, CmdBegin, CmdEnd, CmdCommit, FenceWait]\<rparr>) \<and>
   ReallocateVertexAllocationToSize 16
     (emptyEngine\<lparr>currentVertexSize := 12,
        vertexAllocatedList := [\<lparr>start = 0, count = 4\<rparr>, \<lparr>start = 8, count = 4\<rparr>]\<rparr>) =
     UB ComparatorNotStrictWeak"
  by (simp add: ReallocateVertexAllocationToSize_def Let_def std_sort_def strict_weak_on_def
      comparator_def emptyEngine_def)

text \<open>
  C8. After \<open>GrowVertexBuffer(newSize)\<close> the vertex free list is to be the single range
  \<open>[packedEnd, newSize)\<close>. Run on the code from the empty state with \<open>newSize = 64\<close>
  (nothing allocated, so \<open>packedEnd = 0\<close>): the grow returns with capacity 64 and the
  free list still empty, not \<open>[{0,64}]\<close>. The function never writes the free list.
\<close>

theorem grow_leaves_free_list:
  "\<exists>s'. ReallocateVertexAllocationToSize 64 emptyEngine = Returned () s' \<and>
     currentVertexSize s' = 64 \<and> vertexAllocatedList s' = [] \<and>
     vertexFreeList s' = [] \<and> vertexFreeList s' \<noteq> [\<lparr>start = 0, count = 64\<rparr>]"
  by (simp add: ReallocateVertexAllocationToSize_no_allocations emptyEngine_def)

text \<open>
  C9, as amended. The free-space search initialises its best-candidate index to the
  out-of-range sentinel \<open>0xFFFFFFFF\<close> and, in every iteration before a candidate is
  found, compares the requested size against the entry at that index. So on every
  non-empty free list (of fewer than \<open>2^32\<close> entries) the first iteration reads out of
  bounds, whereas on an empty free list the body of the loop never runs: nothing is
  read and the sentinel is returned.
\<close>

theorem findPlacement_reads_sentinel_entry:
  assumes "freeList \<noteq> []" and "length freeList < 2 ^ 32"
  shows "findPlacement requestedSize freeList = Some (Inl OutOfBoundsRead) \<and>
         findPlacement requestedSize [] = Some (Inr (- 1))"
  using assms by (simp add: findPlacement_nonempty findPlacement_empty)

theorem findPlacement_reads_sentinel_entry_witness:
  "[\<lparr>start = 0, count = 64\<rparr>] \<noteq> [] \<and> length [\<lparr>start = 0, count = 64\<rparr>] < 2 ^ 32 \<and>
   findPlacement 64 [\<lparr>start = 0, count = 64\<rparr>] = Some (Inl OutOfBoundsRead) \<and>
   findPlacement 64 [] = Some (Inr (- 1))"
  using findPlacement_reads_sentinel_entry [of "[\<lparr>start = 0, count = 64\<rparr>]" 64]
  by simp

text \<open>
  C9 as stated fails: on the empty free list the search for 64 bytes returns the
  sentinel; it does not read out of bounds.
\<close>

theorem findPlacement_empty_counterexample:
  "findPlacement 64 [] = Some (Inr 4294967295) \<and>
   findPlacement 64 [] \<noteq> Some (Inl OutOfBoundsRead)"
  by (simp add: findPlacement_empty)

text \<open>
  C10. \<open>ReallocateIndexAllocationToSize(newSize)\<close> always returns, and the state it
  returns is the old one with two members written: \<open>sharedIndexBuffer\<close>, a newly
  created buffer of \<open>newSize\<close> bytes that has received no data, and \<open>currentIndexSize\<close>,
  now \<open>newSize\<close>. The index free list and allocated list are unchanged, nothing is
  added to the log of command-buffer and fence calls (no copy command, no fence wait),
  and \<open>gcBuffers\<close> is unchanged: the previous index buffer is not enqueued. The vertex
  members are unchanged as well.
\<close>

theorem ReallocateIndexAllocationToSize_frame:
  "\<exists>s'. ReallocateIndexAllocationToSize newSize s = Returned () s' \<and>
     s' = s\<lparr>sharedIndexBuffer := CreateBuffer newSize IndexBuffer sizeof_uint32_t Private,
            currentIndexSize := newSize\<rparr> \<and>
     nBytes (sharedIndexBuffer s') = newSize \<and> uploads (sharedIndexBuffer s') = [] \<and>
     currentIndexSize s' = newSize \<and>
     indexFreeList s' = indexFreeList s \<and> indexAllocatedList s' = indexAllocatedList s \<and>
     deviceLog s' = deviceLog s \<and> gcBuffers s' = gcBuffers s \<and>
     sharedVertexBuffer s' = sharedVertexBuffer s \<and> currentVertexSize s' = currentVertexSize s \<and>
     vertexFreeList s' = vertexFreeList s \<and> vertexAllocatedList s' = vertexAllocatedList s"
  by (simp add: ReallocateIndexAllocationToSize_def CreateBuffer_def)

end
